theory Spec2Isabelle
  imports Complex_Main
begin

section \<open>Python values and exceptions\<close>

text \<open>
  The module \<^verbatim>\<open>reviews/models.py\<close> declares the Django models Category, Genre, Title,
  Review and Comment. What the declarations mean (field validators, database
  constraints, deletion policies) is given by the framework; the definitions below
  embed each declaration in the order and with the constants of the source and give
  it the meaning the framework documents for it.

  Exceptions are values: a function that can raise returns \<open>error + 'a\<close>.
\<close>

datatype error =
    ValidationError "string list"  \<comment> \<open>the codes of the collected errors\<close>
  | IntegrityError
  | Http404
  | TypeError

text \<open>\<^verbatim>\<open>datetime.date\<close>; \<^verbatim>\<open>date.today()\<close> reads the clock, which the model passes around.\<close>

record date =
  year :: int
  month :: int
  day :: int




section \<open>Field validators\<close>

text \<open>
  \<^verbatim>\<open>MinValueValidator(limit)\<close> and \<^verbatim>\<open>MaxValueValidator(limit)\<close>. The limit is a value, or
  a callable that the validator calls each time it runs; a callable that reads the
  clock is a function of the date of the call.
\<close>

datatype limit_value = Value int | Callable "date \<Rightarrow> int"

datatype validator = MinValueValidator limit_value | MaxValueValidator limit_value

fun limit_of :: "date \<Rightarrow> limit_value \<Rightarrow> int" where
  "limit_of now (Value v) = v"
| "limit_of now (Callable f) = f now"

text \<open>
  Calling a validator: the list of error codes it raises, empty when the value passes.
  The minimum validator raises when \<open>a < limit\<close>, the maximum validator when \<open>a > limit\<close>.
\<close>

fun call_validator :: "date \<Rightarrow> validator \<Rightarrow> int \<Rightarrow> string list" where
  "call_validator now (MinValueValidator l) a = (if a < limit_of now l then [''min_value''] else [])"
| "call_validator now (MaxValueValidator l) a = (if a > limit_of now l then [''max_value''] else [])"

text \<open>
  \<^verbatim>\<open>Field.run_validators\<close>: every validator runs, the errors are collected, and one
  ValidationError carrying all of them is raised when there is any.
\<close>

definition run_validators :: "date \<Rightarrow> validator list \<Rightarrow> int \<Rightarrow> error + unit" where
  "run_validators now vs a =
     (let errors = concat (map (\<lambda>v. call_validator now v a) vs)
      in if errors = [] then Inr () else Inl (ValidationError errors))"

text \<open>
  The integer fields of the module. An integer field adds to its declared validators
  the bounds of its column type, unless a declared validator is already at least as
  strict: \<^verbatim>\<open>IntegerField.validators\<close>. The ranges are the framework's defaults
  (\<^verbatim>\<open>BaseDatabaseOperations.integer_field_ranges\<close>), those the field documentation gives.
\<close>

datatype internal_type = IntegerField | PositiveIntegerField

record int_field =
  internal_type :: internal_type
  declared_validators :: "validator list"

fun integer_field_range :: "internal_type \<Rightarrow> int option \<times> int option" where
  "integer_field_range IntegerField = (Some (- 2147483648), Some 2147483647)"
| "integer_field_range PositiveIntegerField = (Some 0, Some 2147483647)"

fun is_min_at_least :: "date \<Rightarrow> int \<Rightarrow> validator \<Rightarrow> bool" where
  "is_min_at_least now m (MinValueValidator l) = (limit_of now l \<ge> m)"
| "is_min_at_least now m (MaxValueValidator l) = False"

fun is_max_at_most :: "date \<Rightarrow> int \<Rightarrow> validator \<Rightarrow> bool" where
  "is_max_at_most now m (MaxValueValidator l) = (limit_of now l \<le> m)"
| "is_max_at_most now m (MinValueValidator l) = False"

definition field_validators :: "date \<Rightarrow> int_field \<Rightarrow> validator list" where
  "field_validators now f =
     (let vs = declared_validators f;
          (min_value, max_value) = integer_field_range (internal_type f);
          vs1 = (case min_value of
                   None \<Rightarrow> vs
                 | Some m \<Rightarrow> if list_ex (is_min_at_least now m) vs then vs
                             else vs @ [MinValueValidator (Value m)]);
          vs2 = (case max_value of
                   None \<Rightarrow> vs1
                 | Some m \<Rightarrow> if list_ex (is_max_at_most now m) vs1 then vs1
                             else vs1 @ [MaxValueValidator (Value m)])
      in vs2)"

text \<open>\<^verbatim>\<open>Field.clean\<close> on an integer: run the validators, return the value.\<close>

definition clean :: "date \<Rightarrow> int_field \<Rightarrow> int \<Rightarrow> error + int" where
  "clean now f a =
     (case run_validators now (field_validators now f) a of
        Inl e \<Rightarrow> Inl e
      | Inr _ \<Rightarrow> Inr a)"

text \<open>
  \<^verbatim>\<open>Title.year\<close> (lines 74-82): a PositiveIntegerField with one declared validator,
  \<^verbatim>\<open>MaxValueValidator(date.today().year, message=...)\<close>. The argument is evaluated when
  the class body runs, at the import of the module; \<open>today\<close> is the date then.
\<close>

definition Title_year :: "date \<Rightarrow> int_field" where
  "Title_year today =
     \<lparr>internal_type = PositiveIntegerField,
      declared_validators = [MaxValueValidator (Value (year today))]\<rparr>"

text \<open>\<^verbatim>\<open>Review.score\<close> (lines 124-127).\<close>

definition Review_score :: int_field where
  "Review_score =
     \<lparr>internal_type = IntegerField,
      declared_validators = [MinValueValidator (Value 1), MaxValueValidator (Value 10)]\<rparr>"

section \<open>The tables\<close>

text \<open>
  One record per model, one field per column. A foreign key holds the primary key of
  the row it points to; \<^verbatim>\<open>Title.category\<close> is nullable. \<^verbatim>\<open>User\<close> is the project's user
  model, obtained by \<^verbatim>\<open>get_user_model()\<close>; only its primary key matters here. The
  many-to-many field \<^verbatim>\<open>Title.genre\<close> is its table of (title, genre) pairs. A
  \<^verbatim>\<open>pub_date\<close> is filled in by the framework (\<^verbatim>\<open>auto_now_add\<close>); the model takes it as
  part of the row that is saved. Verbose names, orderings, the lengths of the character
  fields and the format of the slugs play no part in what follows and are left out.
\<close>

record Category =
  category_name :: string
  category_slug :: string

record Genre =
  genre_name :: string
  genre_slug :: string

record Title =
  title_name :: string
  title_year :: int
  title_description :: string
  title_category :: "int option"

record Review =
  review_title :: int
  review_author :: int
  review_text :: string
  review_score :: int
  review_pub_date :: int

record Comment =
  comment_author :: int
  comment_review :: int
  comment_text :: string
  comment_pub_date :: int

text \<open>A table is the list of its rows, each with its primary key.\<close>

type_synonym 'a table = "(int \<times> 'a) list"

record db =
  users :: "int list"
  categories :: "Category table"
  genres :: "Genre table"
  titles :: "Title table"
  title_genre :: "(int \<times> int) list"
  reviews :: "Review table"
  comments :: "Comment table"

definition empty_db :: db where
  "empty_db = \<lparr>users = [], categories = [], genres = [], titles = [], title_genre = [],
     reviews = [], comments = []\<rparr>"

definition keys :: "'a table \<Rightarrow> int set" where
  "keys t = fst ` set t"

definition get_row :: "'a table \<Rightarrow> int \<Rightarrow> 'a option" where
  "get_row t k = map_of t k"

section \<open>Review.get\_mean\_score\<close>

text \<open>
  The Python values the method handles. A query set's \<^verbatim>\<open>aggregate\<close> returns a
  dictionary from the name of each aggregate to its value; the name of \<^verbatim>\<open>Avg("score")\<close>
  is \<^verbatim>\<open>score__avg\<close>, and its value is None over no rows. The mean is kept exact.
\<close>

datatype py_value =
    PyNone
  | PyInt int
  | PyFloat rat
  | PyDict "(string \<times> py_value) list"

text \<open>Rounding to the nearest integer, a tie going to the even one, as Python rounds.\<close>

definition round_half_even :: "rat \<Rightarrow> int" where
  "round_half_even q =
     (let f = \<lfloor>q\<rfloor>; d = q - of_int f
      in if d < 1 / 2 then f
         else if 1 / 2 < d then f + 1
         else if even f then f else f + 1)"

text \<open>
  The builtin \<^verbatim>\<open>round\<close> with one argument: defined on numbers; any other value has no
  \<^verbatim>\<open>__round__\<close> and raises TypeError.
\<close>

fun py_round :: "py_value \<Rightarrow> error + py_value" where
  "py_round (PyInt n) = Inr (PyInt n)"
| "py_round (PyFloat q) = Inr (PyInt (round_half_even q))"
| "py_round PyNone = Inl TypeError"
| "py_round (PyDict d) = Inl TypeError"

text \<open>\<^verbatim>\<open>get_object_or_404(Title, pk=title_id)\<close>: the row, or Http404 when there is none.\<close>

definition get_object_or_404 :: "'a table \<Rightarrow> int \<Rightarrow> error + (int \<times> 'a)" where
  "get_object_or_404 t pk =
     (case get_row t pk of
        None \<Rightarrow> Inl Http404
      | Some row \<Rightarrow> Inr (pk, row))"

text \<open>\<^verbatim>\<open>Review.objects.filter(title=title)\<close>.\<close>

definition filter_title :: "Review table \<Rightarrow> int \<times> Title \<Rightarrow> Review table" where
  "filter_title rs title = filter (\<lambda>(k, r). review_title r = fst title) rs"

definition Avg_score :: "Review table \<Rightarrow> py_value" where
  "Avg_score rs =
     (if rs = [] then PyNone
      else PyFloat (of_int (sum_list (map (\<lambda>(k, r). review_score r) rs)) / of_int (int (length rs))))"

definition aggregate_Avg_score :: "Review table \<Rightarrow> py_value" where
  "aggregate_Avg_score rs = PyDict [(''score__avg'', Avg_score rs)]"

text \<open>The body of the \<^verbatim>\<open>try\<close> block (lines 149-153): \<^verbatim>\<open>round\<close> applied to what \<^verbatim>\<open>aggregate\<close> returns.\<close>

definition mean_score_try :: "db \<Rightarrow> int \<times> Title \<Rightarrow> error + py_value" where
  "mean_score_try d title = py_round (aggregate_Avg_score (filter_title (reviews d) title))"

text \<open>
  \<^verbatim>\<open>get_mean_score(self, title_id)\<close> (lines 146-155). The lookup of the title stands before
  the \<^verbatim>\<open>try\<close>; the bare \<^verbatim>\<open>except\<close> turns every exception of the block into the value 0.
  \<^verbatim>\<open>self\<close> is not used.
\<close>

definition get_mean_score :: "db \<Rightarrow> int \<Rightarrow> error + py_value" where
  "get_mean_score d title_id =
     (case get_object_or_404 (titles d) title_id of
        Inl e \<Rightarrow> Inl e
      | Inr title \<Rightarrow>
          (case mean_score_try d title of
             Inl _ \<Rightarrow> Inr (PyInt 0)
           | Inr v \<Rightarrow> Inr v))"

text \<open>
  What the method is meant to return, in the words of its name: the mean of the scores
  of the title's reviews, rounded.
\<close>

definition rounded_mean_score :: "db \<Rightarrow> int \<Rightarrow> int" where
  "rounded_mean_score d title_id =
     (let scores = map (\<lambda>(k, r). review_score r) (filter (\<lambda>(k, r). review_title r = title_id) (reviews d))
      in round_half_even (of_int (sum_list scores) / of_int (int (length scores))))"

section \<open>Saving rows\<close>

text \<open>
  \<^verbatim>\<open>Model.save()\<close>: an instance without a primary key is inserted under a fresh one; an
  instance with a primary key updates the row of that key, and is inserted under it
  when there is no such row.
\<close>

definition new_pk :: "'a table \<Rightarrow> int" where
  "new_pk t = fold max (map fst t) 0 + 1"

definition saved_pk :: "int option \<Rightarrow> 'a table \<Rightarrow> int" where
  "saved_pk pk t = (case pk of None \<Rightarrow> new_pk t | Some k \<Rightarrow> k)"

definition save_row :: "int \<Rightarrow> 'a \<Rightarrow> 'a table \<Rightarrow> 'a table" where
  "save_row k row t =
     (if k \<in> keys t then map (\<lambda>(k', row'). if k' = k then (k, row) else (k', row')) t
      else t @ [(k, row)])"

definition delete_row :: "int \<Rightarrow> 'a table \<Rightarrow> 'a table" where
  "delete_row k t = filter (\<lambda>(k', row). k' \<noteq> k) t"

text \<open>
  The constraints the database checks on the row written under key \<open>k\<close>; a violation
  raises IntegrityError and nothing is written.

  \<^verbatim>\<open>unique=True\<close> on the slug of Category (line 27) and of Genre (line 52).
\<close>

definition unique_category_slug :: "Category table \<Rightarrow> int \<Rightarrow> Category \<Rightarrow> bool" where
  "unique_category_slug cs k c = (\<forall>(k', c') \<in> set cs. k' = k \<or> category_slug c' \<noteq> category_slug c)"

definition unique_genre_slug :: "Genre table \<Rightarrow> int \<Rightarrow> Genre \<Rightarrow> bool" where
  "unique_genre_slug gs k g = (\<forall>(k', g') \<in> set gs. k' = k \<or> genre_slug g' \<noteq> genre_slug g)"

text \<open>
  \<^verbatim>\<open>UniqueConstraint(fields=["author", "title"], name="unique_author_title_pair")\<close>
  (lines 135-139): no other row has both the author and the title of the row written.
\<close>

definition unique_author_title_pair :: "Review table \<Rightarrow> int \<Rightarrow> Review \<Rightarrow> bool" where
  "unique_author_title_pair rs k r =
     (\<forall>(k', r') \<in> set rs. k' = k \<or> \<not> (review_author r' = review_author r \<and> review_title r' = review_title r))"

text \<open>
  \<^verbatim>\<open>CheckConstraint(check=~Q(author=F("review__author")), name="self_commenting_check")\<close>
  (lines 173-178), read as it is written: the author of the comment written is not the
  author of the review the comment points to. It is a constraint of the Comment table,
  evaluated on the comment row that is written.
\<close>

definition self_commenting_check :: "Review table \<Rightarrow> Comment \<Rightarrow> bool" where
  "self_commenting_check rs c =
     (case get_row rs (comment_review c) of
        None \<Rightarrow> True
      | Some r \<Rightarrow> comment_author c \<noteq> review_author r)"

definition save_user :: "int \<Rightarrow> db \<Rightarrow> error + db" where
  "save_user u d = Inr (d\<lparr>users := (if u \<in> set (users d) then users d else users d @ [u])\<rparr>)"

definition save_category :: "int option \<Rightarrow> Category \<Rightarrow> db \<Rightarrow> error + db" where
  "save_category pk c d =
     (let k = saved_pk pk (categories d)
      in if unique_category_slug (categories d) k c
         then Inr (d\<lparr>categories := save_row k c (categories d)\<rparr>)
         else Inl IntegrityError)"

definition save_genre :: "int option \<Rightarrow> Genre \<Rightarrow> db \<Rightarrow> error + db" where
  "save_genre pk g d =
     (let k = saved_pk pk (genres d)
      in if unique_genre_slug (genres d) k g
         then Inr (d\<lparr>genres := save_row k g (genres d)\<rparr>)
         else Inl IntegrityError)"

text \<open>A foreign key must point to a row that exists.\<close>

definition save_title :: "int option \<Rightarrow> Title \<Rightarrow> db \<Rightarrow> error + db" where
  "save_title pk t d =
     (let k = saved_pk pk (titles d)
      in if (case title_category t of None \<Rightarrow> True | Some c \<Rightarrow> c \<in> keys (categories d))
         then Inr (d\<lparr>titles := save_row k t (titles d)\<rparr>)
         else Inl IntegrityError)"

text \<open>\<^verbatim>\<open>title.genre.add(genre)\<close> and \<^verbatim>\<open>title.genre.remove(genre)\<close>.\<close>

definition add_genre :: "int \<Rightarrow> int \<Rightarrow> db \<Rightarrow> error + db" where
  "add_genre t g d =
     (if t \<in> keys (titles d) \<and> g \<in> keys (genres d)
      then Inr (d\<lparr>title_genre := (if (t, g) \<in> set (title_genre d) then title_genre d
                                    else title_genre d @ [(t, g)])\<rparr>)
      else Inl IntegrityError)"

definition remove_genre :: "int \<Rightarrow> int \<Rightarrow> db \<Rightarrow> error + db" where
  "remove_genre t g d = Inr (d\<lparr>title_genre := removeAll (t, g) (title_genre d)\<rparr>)"

definition save_review :: "int option \<Rightarrow> Review \<Rightarrow> db \<Rightarrow> error + db" where
  "save_review pk r d =
     (let k = saved_pk pk (reviews d)
      in if review_title r \<in> keys (titles d) \<and> review_author r \<in> set (users d)
            \<and> unique_author_title_pair (reviews d) k r
         then Inr (d\<lparr>reviews := save_row k r (reviews d)\<rparr>)
         else Inl IntegrityError)"

definition save_comment :: "int option \<Rightarrow> Comment \<Rightarrow> db \<Rightarrow> error + db" where
  "save_comment pk c d =
     (let k = saved_pk pk (comments d)
      in if comment_review c \<in> keys (reviews d) \<and> comment_author c \<in> set (users d)
            \<and> self_commenting_check (reviews d) c
         then Inr (d\<lparr>comments := save_row k c (comments d)\<rparr>)
         else Inl IntegrityError)"

section \<open>Deleting rows\<close>

text \<open>
  Deleting a row first handles the rows that point to it, each foreign key as its
  \<^verbatim>\<open>on_delete\<close> says. \<^verbatim>\<open>Comment.review\<close> (line 163), \<^verbatim>\<open>Comment.author\<close> (line 160),
  \<^verbatim>\<open>Review.title\<close> (line 114) and \<^verbatim>\<open>Review.author\<close> (line 120) are CASCADE: the pointing
  rows are deleted too, and so on from them. \<^verbatim>\<open>Title.category\<close> (line 95) is SET\_NULL.
  The rows of a many-to-many table go with either end. Deleting a row that does not
  exist does nothing.
\<close>

definition cascade_comments :: "(int \<times> Comment \<Rightarrow> bool) \<Rightarrow> db \<Rightarrow> db" where
  "cascade_comments P d = d\<lparr>comments := filter (\<lambda>x. \<not> P x) (comments d)\<rparr>"

definition cascade_reviews :: "(int \<times> Review \<Rightarrow> bool) \<Rightarrow> db \<Rightarrow> db" where
  "cascade_reviews P d =
     (let gone = map fst (filter P (reviews d))
      in (cascade_comments (\<lambda>(k, c). comment_review c \<in> set gone) d)
           \<lparr>reviews := filter (\<lambda>x. \<not> P x) (reviews d)\<rparr>)"

definition set_null_category :: "int \<Rightarrow> Title table \<Rightarrow> Title table" where
  "set_null_category k ts =
     map (\<lambda>(k', t). if title_category t = Some k then (k', t\<lparr>title_category := None\<rparr>) else (k', t)) ts"

definition delete_comment :: "int \<Rightarrow> db \<Rightarrow> db" where
  "delete_comment k d =
     (if k \<in> keys (comments d) then cascade_comments (\<lambda>(k', c). k' = k) d else d)"

definition delete_review :: "int \<Rightarrow> db \<Rightarrow> db" where
  "delete_review k d =
     (if k \<in> keys (reviews d) then cascade_reviews (\<lambda>(k', r). k' = k) d else d)"

definition delete_title :: "int \<Rightarrow> db \<Rightarrow> db" where
  "delete_title k d =
     (if k \<in> keys (titles d)
      then (cascade_reviews (\<lambda>(k', r). review_title r = k) d)
             \<lparr>title_genre := filter (\<lambda>(t, g). t \<noteq> k) (title_genre d),
              titles := delete_row k (titles d)\<rparr>
      else d)"

definition delete_user :: "int \<Rightarrow> db \<Rightarrow> db" where
  "delete_user u d =
     (if u \<in> set (users d)
      then (cascade_comments (\<lambda>(k, c). comment_author c = u)
              (cascade_reviews (\<lambda>(k, r). review_author r = u) d))
             \<lparr>users := removeAll u (users d)\<rparr>
      else d)"

definition delete_category :: "int \<Rightarrow> db \<Rightarrow> db" where
  "delete_category k d =
     (if k \<in> keys (categories d)
      then d\<lparr>titles := set_null_category k (titles d),
             categories := delete_row k (categories d)\<rparr>
      else d)"

definition delete_genre :: "int \<Rightarrow> db \<Rightarrow> db" where
  "delete_genre k d =
     (if k \<in> keys (genres d)
      then d\<lparr>title_genre := filter (\<lambda>(t, g). g \<noteq> k) (title_genre d),
             genres := delete_row k (genres d)\<rparr>
      else d)"

section \<open>The reachable states\<close>

text \<open>
  The operations of the models: create, update and delete on each. An operation that
  raises leaves the database as it was.
\<close>

datatype op =
    SaveUser int
  | DeleteUser int
  | SaveCategory "int option" Category
  | DeleteCategory int
  | SaveGenre "int option" Genre
  | DeleteGenre int
  | SaveTitle "int option" Title
  | DeleteTitle int
  | AddGenre int int
  | RemoveGenre int int
  | SaveReview "int option" Review
  | DeleteReview int
  | SaveComment "int option" Comment
  | DeleteComment int

fun apply_op :: "db \<Rightarrow> op \<Rightarrow> error + db" where
  "apply_op d (SaveUser u) = save_user u d"
| "apply_op d (DeleteUser u) = Inr (delete_user u d)"
| "apply_op d (SaveCategory pk c) = save_category pk c d"
| "apply_op d (DeleteCategory k) = Inr (delete_category k d)"
| "apply_op d (SaveGenre pk g) = save_genre pk g d"
| "apply_op d (DeleteGenre k) = Inr (delete_genre k d)"
| "apply_op d (SaveTitle pk t) = save_title pk t d"
| "apply_op d (DeleteTitle k) = Inr (delete_title k d)"
| "apply_op d (AddGenre t g) = add_genre t g d"
| "apply_op d (RemoveGenre t g) = remove_genre t g d"
| "apply_op d (SaveReview pk r) = save_review pk r d"
| "apply_op d (DeleteReview k) = Inr (delete_review k d)"
| "apply_op d (SaveComment pk c) = save_comment pk c d"
| "apply_op d (DeleteComment k) = Inr (delete_comment k d)"

definition step :: "db \<Rightarrow> op \<Rightarrow> db" where
  "step d x = (case apply_op d x of Inl e \<Rightarrow> d | Inr d' \<Rightarrow> d')"

inductive reachable :: "db \<Rightarrow> bool" where
  init: "reachable empty_db"
| step: "reachable d \<Longrightarrow> reachable (step d x)"

text \<open>The properties of a state the claims are about.\<close>

definition distinct_pks :: "db \<Rightarrow> bool" where
  "distinct_pks d = (distinct (map fst (titles d)) \<and> distinct (map fst (reviews d))
     \<and> distinct (map fst (comments d)))"

definition one_review_per_author_title :: "db \<Rightarrow> bool" where
  "one_review_per_author_title d =
     (\<forall>(k, r) \<in> set (reviews d). \<forall>(k', r') \<in> set (reviews d).
        k = k' \<or> \<not> (review_author r = review_author r' \<and> review_title r = review_title r'))"

definition parents_exist :: "db \<Rightarrow> bool" where
  "parents_exist d =
     ((\<forall>(k, r) \<in> set (reviews d). review_title r \<in> keys (titles d))
      \<and> (\<forall>(k, c) \<in> set (comments d). comment_review c \<in> keys (reviews d)))"



definition db_inv :: "db \<Rightarrow> bool" where
  "db_inv d = (distinct_pks d \<and> one_review_per_author_title d \<and> parents_exist d)"

section \<open>Example states\<close>

definition title1 :: Title where
  "title1 = \<lparr>title_name = ''Solaris'', title_year = 1972, title_description = [],
     title_category = None\<rparr>"

definition review1 :: Review where
  "review1 = \<lparr>review_title = 1, review_author = 1, review_text = ''good'', review_score = 5,
     review_pub_date = 0\<rparr>"

text \<open>A user, a title and the user's review of it, score 5.\<close>

definition db_reviewed :: db where
  "db_reviewed = foldl step empty_db [SaveUser 1, SaveTitle None title1, SaveReview None review1]"

definition new_year_eve :: date where
  "new_year_eve = \<lparr>year = 2023, month = 12, day = 31\<rparr>"

definition new_year_day :: date where
  "new_year_day = \<lparr>year = 2024, month = 1, day = 1\<rparr>"

text \<open>
  A second user comments on the review; then the review is saved again with the second
  user as its author.
\<close>

definition comment1 :: Comment where
  "comment1 = \<lparr>comment_author = 2, comment_review = 1, comment_text = ''agreed'', comment_pub_date = 1\<rparr>"

definition db_commented :: db where
  "db_commented = foldl step empty_db
     [SaveUser 1, SaveUser 2, SaveTitle None title1, SaveReview None review1, SaveComment None comment1]"


text \<open>A category, a genre, a title of that category and genre, and a title of no category.\<close>

definition category1 :: Category where
  "category1 = \<lparr>category_name = ''Films'', category_slug = ''films''\<rparr>"

definition genre1 :: Genre where
  "genre1 = \<lparr>genre_name = ''Drama'', genre_slug = ''drama''\<rparr>"

definition title2 :: Title where
  "title2 = \<lparr>title_name = ''Stalker'', title_year = 1979, title_description = [],
     title_category = Some 1\<rparr>"

definition db_categorised :: db where
  "db_categorised = foldl step empty_db
     [SaveCategory None category1, SaveGenre None genre1, SaveTitle None title2,
      SaveTitle None title1, AddGenre 1 1]"

section \<open>Validation of the integer fields\<close>

lemma field_validators_Review_score:
  "field_validators now Review_score = [MinValueValidator (Value 1), MaxValueValidator (Value 10)]"
  by (simp add: field_validators_def Review_score_def)


lemma clean_Review_score:
  "clean now Review_score s =
     (if 1 \<le> s \<and> s \<le> 10 then Inr s
      else Inl (ValidationError ((if s < 1 then [''min_value''] else [])
                                  @ (if 10 < s then [''max_value''] else []))))"
  by (simp add: clean_def run_validators_def field_validators_Review_score)



text \<open>
  Claim C4. The validation of \<^verbatim>\<open>Review.score\<close> accepts an integer \<open>s\<close> exactly when
  \<open>1 \<le> s \<le> 10\<close>, and raises a ValidationError exactly when \<open>s\<close> is outside that range.
\<close>

theorem review_score_validation:
  "(clean now Review_score s = Inr s) = (1 \<le> s \<and> s \<le> 10)
   \<and> (\<exists>codes. clean now Review_score s = Inl (ValidationError codes)) = (s < 1 \<or> 10 < s)"
  by (auto simp add: clean_Review_score)

theorem review_score_validation_witness:
  "clean new_year_day Review_score 10 = Inr 10
   \<and> clean new_year_day Review_score 11 \<noteq> Inr 11
   \<and> clean new_year_day Review_score 0 \<noteq> Inr 0"
  using review_score_validation [of new_year_day 10]
    review_score_validation [of new_year_day 11]
    review_score_validation [of new_year_day 0]
  by simp

text \<open>
  Claim C6, at the input where the code departs from it. The module is imported on
  31 December 2023 and a title of the year 2024 is validated on 1 January 2024: the year
  does not exceed the current year, and the validation rejects it.
\<close>

theorem title_year_rejects_current_year_after_new_year:
  "clean new_year_day (Title_year new_year_eve) 2024 = Inl (ValidationError [''max_value''])
   \<and> 2024 \<le> year new_year_day"
  by (simp add: clean_def run_validators_def field_validators_def Title_year_def
      new_year_eve_def new_year_day_def)





section \<open>The mean score\<close>

lemmas eval_defs = step_def save_user_def save_title_def save_review_def save_comment_def
  saved_pk_def new_pk_def save_row_def keys_def empty_db_def unique_author_title_pair_def
  self_commenting_check_def get_row_def

lemma db_reviewed_eq:
  "db_reviewed = \<lparr>users = [1], categories = [], genres = [], titles = [(1, title1)],
     title_genre = [], reviews = [(1, review1)], comments = []\<rparr>"
  by (simp add: db_reviewed_def eval_defs title1_def review1_def)

lemma reachable_foldl: "reachable d \<Longrightarrow> reachable (foldl step d xs)"
  by (induction xs arbitrary: d) (auto intro: reachable.step)

text \<open>
  Claim C1, at an input where the code departs from it. In a reachable state with one
  title and one review of it, of score 5, the rounded mean of the scores is 5 and
  \<^verbatim>\<open>get_mean_score\<close> returns 0: \<^verbatim>\<open>round\<close> is applied to the dictionary that \<^verbatim>\<open>aggregate\<close>
  returns, the TypeError is caught, and the default is returned.
\<close>

theorem get_mean_score_of_reviewed_title:
  "reachable db_reviewed \<and> get_mean_score db_reviewed 1 = Inr (PyInt 0)
   \<and> rounded_mean_score db_reviewed 1 = 5"
proof -
  have "reachable db_reviewed"
    unfolding db_reviewed_def by (rule reachable_foldl) (rule reachable.init)
  moreover have "get_mean_score db_reviewed 1 = Inr (PyInt 0)"
    by (simp add: db_reviewed_eq get_mean_score_def get_object_or_404_def get_row_def
        mean_score_try_def aggregate_Avg_score_def)
  moreover have "rounded_mean_score db_reviewed 1 = 5"
    by (simp add: db_reviewed_eq rounded_mean_score_def review1_def round_half_even_def)
  ultimately show ?thesis by simp
qed

text \<open>
  Claim C2 as stated fails: for a \<^verbatim>\<open>title_id\<close> without a title, the Http404 of the lookup
  is raised outside the \<^verbatim>\<open>try\<close> block and reaches the caller.
\<close>

theorem get_mean_score_missing_title:
  "get_mean_score empty_db 1 = Inl Http404"
  by (simp add: get_mean_score_def get_object_or_404_def get_row_def empty_db_def)

text \<open>
  Claim C2, amended. An exception of the lookup of the title reaches the caller. Once
  the title is found the method raises nothing: it returns a value, and that value is 0
  whenever the body of the \<^verbatim>\<open>try\<close> block raises.
\<close>

theorem get_mean_score_exceptions:
  "(get_object_or_404 (titles d) title_id = Inl e \<longrightarrow> get_mean_score d title_id = Inl e)
   \<and> (get_object_or_404 (titles d) title_id = Inr title \<longrightarrow>
        (\<exists>v. get_mean_score d title_id = Inr v)
        \<and> (\<forall>e'. mean_score_try d title = Inl e' \<longrightarrow> get_mean_score d title_id = Inr (PyInt 0)))"
  by (auto simp add: get_mean_score_def split: sum.splits)

theorem get_mean_score_exceptions_witness:
  "get_object_or_404 (titles empty_db) 1 = Inl Http404 \<and> get_mean_score empty_db 1 = Inl Http404
   \<and> get_object_or_404 (titles db_reviewed) 1 = Inr (1, title1)
   \<and> mean_score_try db_reviewed (1, title1) = Inl TypeError
   \<and> get_mean_score db_reviewed 1 = Inr (PyInt 0)"
proof -
  have a: "get_object_or_404 (titles empty_db) 1 = Inl Http404"
    by (simp add: get_object_or_404_def get_row_def empty_db_def)
  have b: "get_object_or_404 (titles db_reviewed) 1 = Inr (1, title1)"
    by (simp add: db_reviewed_eq get_object_or_404_def get_row_def)
  have c: "mean_score_try db_reviewed (1, title1) = Inl TypeError"
    by (simp add: mean_score_try_def aggregate_Avg_score_def)
  show ?thesis
    using a b c get_mean_score_exceptions [of empty_db 1 Http404 "(1, title1)"]
      get_mean_score_exceptions [of db_reviewed 1 Http404 "(1, title1)"]
    by simp
qed

section \<open>Tables\<close>

lemma fold_max_ge: "a \<le> fold max xs a \<and> (\<forall>x \<in> set xs. x \<le> fold max xs (a::int))"
proof (induction xs arbitrary: a)
  case Nil
  then show ?case by simp
next
  case (Cons x xs)
  have "max x a \<le> fold max xs (max x a)" using Cons.IH by blast
  moreover have "\<forall>y \<in> set xs. y \<le> fold max xs (max x a)" using Cons.IH by blast
  ultimately show ?case by auto
qed

lemma new_pk_fresh: "new_pk t \<notin> keys t"
proof
  assume "new_pk t \<in> keys t"
  then have "new_pk t \<in> set (map fst t)" by (simp add: keys_def)
  then have "new_pk t \<le> fold max (map fst t) 0" using fold_max_ge by blast
  then show False by (simp add: new_pk_def)
qed

lemma set_map_replace:
  "set (map (\<lambda>(k', row'). if k' = k then (k, row) else (k', row')) t)
     = (if k \<in> fst ` set t then insert (k, row) {x \<in> set t. fst x \<noteq> k} else set t)"
proof (induction t)
  case Nil
  then show ?case by simp
next
  case (Cons a t)
  obtain k' row' where a: "a = (k', row')" by (cases a)
  show ?case
  proof (cases "k \<in> fst ` set t")
    case True
    with Cons a show ?thesis by auto
  next
    case False
    then have "{x \<in> set t. fst x \<noteq> k} = set t" by force
    with False Cons a show ?thesis by auto
  qed
qed

lemma set_save_row:
  "set (save_row k row t) = insert (k, row) {x \<in> set t. fst x \<noteq> k}"
proof (cases "k \<in> keys t")
  case True
  then show ?thesis
    using set_map_replace [of k row t] by (simp add: save_row_def keys_def)
next
  case False
  then have "{x \<in> set t. fst x \<noteq> k} = set t" by (auto simp add: keys_def)
  with False show ?thesis by (simp add: save_row_def)
qed

lemma keys_save_row: "keys (save_row k row t) = insert k (keys t)"
  unfolding keys_def set_save_row by force

lemma map_fst_save_row:
  "map fst (save_row k row t) = (if k \<in> keys t then map fst t else map fst t @ [k])"
proof -
  have "map fst (map (\<lambda>(k', row'). if k' = k then (k, row) else (k', row')) t) = map fst t"
    by (induction t) auto
  then show ?thesis by (simp add: save_row_def)
qed

lemma distinct_save_row: "distinct (map fst t) \<Longrightarrow> distinct (map fst (save_row k row t))"
  by (simp add: map_fst_save_row keys_def)

lemma keys_delete_row: "keys (delete_row k t) = keys t - {k}"
  by (auto simp add: delete_row_def keys_def image_iff)

lemma distinct_filter_fst: "distinct (map fst t) \<Longrightarrow> distinct (map fst (filter P t))"
  by (simp add: distinct_map_filter)

lemma map_fst_set_null_category: "map fst (set_null_category k ts) = map fst ts"
  by (induction ts) (auto simp add: set_null_category_def)

lemma keys_set_null_category: "keys (set_null_category k ts) = keys ts"
  using map_fst_set_null_category [of k ts] by (metis keys_def list.set_map)

lemma db_inv_empty: "db_inv empty_db"
  by (simp add: db_inv_def distinct_pks_def one_review_per_author_title_def parents_exist_def empty_db_def)

lemma db_inv_cascade_comments: "db_inv d \<Longrightarrow> db_inv (cascade_comments P d)"
  by (auto simp add: db_inv_def distinct_pks_def one_review_per_author_title_def parents_exist_def
      cascade_comments_def distinct_map_filter)

lemma db_inv_cascade_reviews: "db_inv d \<Longrightarrow> db_inv (cascade_reviews P d)"
  unfolding db_inv_def distinct_pks_def one_review_per_author_title_def parents_exist_def
      cascade_reviews_def cascade_comments_def keys_def Let_def
  by (fastforce simp add: distinct_map_filter)

section \<open>The invariant of the reachable states\<close>

lemma one_review_iff:
  "one_review_per_author_title d \<longleftrightarrow>
     (\<forall>k r k' r'. (k, r) \<in> set (reviews d) \<longrightarrow> (k', r') \<in> set (reviews d) \<longrightarrow>
        review_author r = review_author r' \<longrightarrow> review_title r = review_title r' \<longrightarrow> k = k')"
  unfolding one_review_per_author_title_def by fast

lemma parents_exist_iff:
  "parents_exist d \<longleftrightarrow>
     ((\<forall>k r. (k, r) \<in> set (reviews d) \<longrightarrow> review_title r \<in> keys (titles d))
      \<and> (\<forall>k c. (k, c) \<in> set (comments d) \<longrightarrow> comment_review c \<in> keys (reviews d)))"
  unfolding parents_exist_def by fast

lemma unique_pair_iff:
  "unique_author_title_pair rs k r \<longleftrightarrow>
     (\<forall>k' r'. (k', r') \<in> set rs \<longrightarrow> review_author r' = review_author r \<longrightarrow>
        review_title r' = review_title r \<longrightarrow> k' = k)"
  unfolding unique_author_title_pair_def by fast

lemma db_inv_frame:
  "db_inv (d\<lparr>users := us\<rparr>) = db_inv d"
  "db_inv (d\<lparr>categories := cs\<rparr>) = db_inv d"
  "db_inv (d\<lparr>genres := gs\<rparr>) = db_inv d"
  "db_inv (d\<lparr>title_genre := tg\<rparr>) = db_inv d"
  by (simp_all add: db_inv_def distinct_pks_def one_review_per_author_title_def parents_exist_def)

lemma db_inv_save_user: "db_inv d \<Longrightarrow> save_user u d = Inr d' \<Longrightarrow> db_inv d'"
  by (auto simp add: save_user_def db_inv_frame)

lemma db_inv_save_category: "db_inv d \<Longrightarrow> save_category pk c d = Inr d' \<Longrightarrow> db_inv d'"
  by (auto simp add: save_category_def Let_def db_inv_frame split: if_splits)

lemma db_inv_save_genre: "db_inv d \<Longrightarrow> save_genre pk g d = Inr d' \<Longrightarrow> db_inv d'"
  by (auto simp add: save_genre_def Let_def db_inv_frame split: if_splits)

lemma db_inv_add_genre: "db_inv d \<Longrightarrow> add_genre t g d = Inr d' \<Longrightarrow> db_inv d'"
  by (auto simp add: add_genre_def db_inv_frame split: if_splits)

lemma db_inv_remove_genre: "db_inv d \<Longrightarrow> remove_genre t g d = Inr d' \<Longrightarrow> db_inv d'"
  by (auto simp add: remove_genre_def db_inv_frame split: if_splits)

lemma db_inv_save_title: "db_inv d \<Longrightarrow> save_title pk t d = Inr d' \<Longrightarrow> db_inv d'"
  by (auto simp add: save_title_def Let_def db_inv_def distinct_pks_def
      one_review_iff parents_exist_iff distinct_save_row keys_save_row
      split: if_splits)

lemma db_inv_save_review:
  assumes "db_inv d" and "save_review pk r d = Inr d'"
  shows "db_inv d'"
proof -
  define k where "k = saved_pk pk (reviews d)"
  from assms(2) have ok: "review_title r \<in> keys (titles d)" "unique_author_title_pair (reviews d) k r"
    and d': "d' = d\<lparr>reviews := save_row k r (reviews d)\<rparr>"
    by (auto simp add: save_review_def Let_def k_def split: if_splits)
  have "distinct_pks d'"
    using assms(1) by (simp add: d' db_inv_def distinct_pks_def distinct_save_row)
  moreover have "one_review_per_author_title d'"
    using assms(1) ok(2) unfolding db_inv_def one_review_iff unique_pair_iff d'
    by (simp add: set_save_row) metis
  moreover have "parents_exist d'"
    using assms(1) ok(1) unfolding db_inv_def parents_exist_iff d'
    by (simp add: set_save_row keys_save_row) blast
  ultimately show ?thesis by (simp add: db_inv_def)
qed

lemma db_inv_save_comment: "db_inv d \<Longrightarrow> save_comment pk c d = Inr d' \<Longrightarrow> db_inv d'"
  by (auto simp add: save_comment_def Let_def db_inv_def distinct_pks_def
      one_review_iff parents_exist_iff distinct_save_row keys_save_row
      set_save_row
      split: if_splits)

lemma db_inv_delete_comment: "db_inv d \<Longrightarrow> db_inv (delete_comment k d)"
  by (simp add: delete_comment_def db_inv_cascade_comments)

lemma db_inv_delete_review: "db_inv d \<Longrightarrow> db_inv (delete_review k d)"
  by (simp add: delete_review_def db_inv_cascade_reviews)

lemma reviews_cascade_reviews: "reviews (cascade_reviews P d) = filter (\<lambda>x. \<not> P x) (reviews d)"
  by (simp add: cascade_reviews_def Let_def)

lemma titles_cascade_reviews: "titles (cascade_reviews P d) = titles d"
  by (simp add: cascade_reviews_def cascade_comments_def Let_def)

lemma db_inv_delete_row_titles:
  assumes "db_inv d" and "\<forall>k' r. (k', r) \<in> set (reviews d) \<longrightarrow> review_title r \<noteq> k"
  shows "db_inv (d\<lparr>titles := delete_row k (titles d)\<rparr>)"
proof -
  have "distinct_pks (d\<lparr>titles := delete_row k (titles d)\<rparr>)"
    using assms(1) by (simp add: db_inv_def distinct_pks_def delete_row_def distinct_map_filter)
  moreover have "one_review_per_author_title (d\<lparr>titles := delete_row k (titles d)\<rparr>)"
    using assms(1) by (simp add: db_inv_def one_review_per_author_title_def)
  moreover have "parents_exist (d\<lparr>titles := delete_row k (titles d)\<rparr>)"
    using assms unfolding db_inv_def parents_exist_iff
    by (simp add: keys_delete_row)
  ultimately show ?thesis by (simp add: db_inv_def)
qed

lemma db_inv_delete_title: "db_inv d \<Longrightarrow> db_inv (delete_title k d)"
proof (cases "k \<in> keys (titles d)")
  case False
  assume "db_inv d"
  with False show ?thesis by (simp add: delete_title_def)
next
  case True
  let ?c = "cascade_reviews (\<lambda>(k', r). review_title r = k) d"
  assume "db_inv d"
  then have c: "db_inv ?c"
    by (rule db_inv_cascade_reviews)
  have "\<forall>k' r. (k', r) \<in> set (reviews ?c) \<longrightarrow> review_title r \<noteq> k"
    by (simp add: reviews_cascade_reviews)
  with c have "db_inv (?c\<lparr>titles := delete_row k (titles ?c)\<rparr>)"
    by (rule db_inv_delete_row_titles)
  then have "db_inv (?c\<lparr>titles := delete_row k (titles ?c),
      title_genre := filter (\<lambda>(t, g). t \<noteq> k) (title_genre d)\<rparr>)"
    by (simp add: db_inv_frame)
  moreover have "delete_title k d = ?c\<lparr>titles := delete_row k (titles ?c),
      title_genre := filter (\<lambda>(t, g). t \<noteq> k) (title_genre d)\<rparr>"
    using True by (simp add: delete_title_def titles_cascade_reviews)
  ultimately show ?thesis by simp
qed

lemma db_inv_delete_user: "db_inv d \<Longrightarrow> db_inv (delete_user u d)"
proof (cases "u \<in> set (users d)")
  case False
  assume "db_inv d"
  with False show ?thesis by (simp add: delete_user_def)
next
  case True
  assume "db_inv d"
  then have "db_inv (cascade_comments (\<lambda>(k, c). comment_author c = u)
              (cascade_reviews (\<lambda>(k, r). review_author r = u) d))"
    by (intro db_inv_cascade_comments db_inv_cascade_reviews)
  then show ?thesis
    using True by (simp add: delete_user_def db_inv_frame)
qed

lemma db_inv_delete_category: "db_inv d \<Longrightarrow> db_inv (delete_category k d)"
  by (auto simp add: delete_category_def db_inv_def distinct_pks_def one_review_iff
        parents_exist_iff map_fst_set_null_category keys_set_null_category)

lemma db_inv_delete_genre: "db_inv d \<Longrightarrow> db_inv (delete_genre k d)"
  by (auto simp add: delete_genre_def db_inv_frame)

lemma db_inv_step: "db_inv d \<Longrightarrow> db_inv (step d x)"
  by (cases x)
     (auto simp add: step_def split: sum.splits
       intro: db_inv_save_user db_inv_save_category db_inv_save_genre db_inv_add_genre db_inv_remove_genre
         db_inv_save_title db_inv_save_review db_inv_save_comment db_inv_delete_comment db_inv_delete_review
         db_inv_delete_title db_inv_delete_user db_inv_delete_category db_inv_delete_genre)

lemma reachable_inv: "reachable d \<Longrightarrow> db_inv d"
  by (induction rule: reachable.induct) (auto simp add: db_inv_empty db_inv_step)

lemma db_commented_eq:
  "db_commented = \<lparr>users = [1, 2], categories = [], genres = [], titles = [(1, title1)],
     title_genre = [], reviews = [(1, review1)], comments = [(1, comment1)]\<rparr>"
  by (simp add: db_commented_def eval_defs title1_def review1_def comment1_def)


lemma reachable_db_commented: "reachable db_commented"
  unfolding db_commented_def by (rule reachable_foldl) (rule reachable.init)

text \<open>
  Claim C5. In every reachable state the reviews have distinct primary keys and no two
  of them have the same author and the same title; inserting a review whose author
  and title are those of a review in the table raises IntegrityError and leaves the
  state as it was.
\<close>

theorem one_review_per_author_and_title:
  "reachable d \<Longrightarrow>
     distinct (map fst (reviews d)) \<and> one_review_per_author_title d
     \<and> ((\<exists>(k', r') \<in> set (reviews d). review_author r' = review_author r \<and> review_title r' = review_title r)
          \<longrightarrow> apply_op d (SaveReview None r) = Inl IntegrityError \<and> step d (SaveReview None r) = d)"
proof -
  assume "reachable d"
  then have i: "db_inv d" by (rule reachable_inv)
  have "apply_op d (SaveReview None r) = Inl IntegrityError"
    if "(k', r') \<in> set (reviews d)" "review_author r' = review_author r" "review_title r' = review_title r"
    for k' r'
  proof -
    from that(1) have "k' \<in> keys (reviews d)" by (force simp add: keys_def)
    then have "k' \<noteq> new_pk (reviews d)" using new_pk_fresh [of "reviews d"] by auto
    with that have "\<not> unique_author_title_pair (reviews d) (new_pk (reviews d)) r"
      unfolding unique_pair_iff by blast
    then show ?thesis by (simp add: save_review_def saved_pk_def)
  qed
  then show ?thesis
    using i by (auto simp add: db_inv_def distinct_pks_def step_def)
qed

theorem one_review_per_author_and_title_witness:
  "reachable db_reviewed \<and> reviews db_reviewed = [(1, review1)]
   \<and> one_review_per_author_title db_reviewed
   \<and> apply_op db_reviewed (SaveReview None (review1\<lparr>review_text := ''again''\<rparr>)) = Inl IntegrityError
   \<and> step db_reviewed (SaveReview None (review1\<lparr>review_text := ''again''\<rparr>)) = db_reviewed"
proof -
  have r: "reachable db_reviewed"
    unfolding db_reviewed_def by (rule reachable_foldl) (rule reachable.init)
  have e: "reviews db_reviewed = [(1, review1)]" by (simp add: db_reviewed_eq)
  have p: "\<exists>(k', r') \<in> set (reviews db_reviewed).
      review_author r' = review_author (review1\<lparr>review_text := ''again''\<rparr>)
      \<and> review_title r' = review_title (review1\<lparr>review_text := ''again''\<rparr>)"
    by (simp add: e)
  note t = one_review_per_author_and_title [OF r, of "review1\<lparr>review_text := ''again''\<rparr>"]
  from t have "one_review_per_author_title db_reviewed" by blast
  moreover from t p have "apply_op db_reviewed (SaveReview None (review1\<lparr>review_text := ''again''\<rparr>)) = Inl IntegrityError
    \<and> step db_reviewed (SaveReview None (review1\<lparr>review_text := ''again''\<rparr>)) = db_reviewed"
    by blast
  ultimately show ?thesis using r e by blast
qed

section \<open>Deletion\<close>

lemma comments_cascade_reviews:
  "comments (cascade_reviews P d)
     = filter (\<lambda>(k, c). comment_review c \<notin> fst ` set (filter P (reviews d))) (comments d)"
  by (simp add: cascade_reviews_def cascade_comments_def Let_def split_def)

lemma key_of_row: "(k, row) \<in> set t \<Longrightarrow> k \<in> keys t"
  by (force simp add: keys_def)

text \<open>
  Claim C8. In a reachable state, deleting a title leaves no review of that title and
  no title of that key, and deleting a review leaves no comment on that review and no
  review of that key; and in every reachable state, the states after these deletions
  among them, each review points to a title of the table and each comment to a review
  of the table.
\<close>

theorem cascade_along_review_chain:
  "reachable d \<Longrightarrow>
     (\<forall>(k, r) \<in> set (reviews (step d (DeleteTitle t))). review_title r \<noteq> t)
     \<and> t \<notin> keys (titles (step d (DeleteTitle t)))
     \<and> (\<forall>(k, c) \<in> set (comments (step d (DeleteReview rv))). comment_review c \<noteq> rv)
     \<and> rv \<notin> keys (reviews (step d (DeleteReview rv)))
     \<and> parents_exist d
     \<and> parents_exist (step d (DeleteTitle t)) \<and> parents_exist (step d (DeleteReview rv))"
proof -
  assume "reachable d"
  then have "db_inv d" by (rule reachable_inv)
  then have p: "parents_exist d" by (simp add: db_inv_def)
  have 1: "\<forall>(k, r) \<in> set (reviews (step d (DeleteTitle t))). review_title r \<noteq> t"
  proof (cases "t \<in> keys (titles d)")
    case True
    then show ?thesis
      by (auto simp add: step_def delete_title_def reviews_cascade_reviews)
  next
    case False
    with p show ?thesis
      unfolding parents_exist_iff by (auto simp add: step_def delete_title_def)
  qed
  have 2: "t \<notin> keys (titles (step d (DeleteTitle t)))"
    by (simp add: step_def delete_title_def keys_delete_row)
  have 3: "\<forall>(k, c) \<in> set (comments (step d (DeleteReview rv))). comment_review c \<noteq> rv"
  proof (cases "rv \<in> keys (reviews d)")
    case True
    then have "rv \<in> fst ` set (filter (\<lambda>(k', r). k' = rv) (reviews d))"
      by (force simp add: keys_def)
    with True show ?thesis
      by (auto simp add: step_def delete_review_def comments_cascade_reviews)
  next
    case False
    with p show ?thesis
      unfolding parents_exist_iff by (auto simp add: step_def delete_review_def)
  qed
  have 4: "rv \<notin> keys (reviews (step d (DeleteReview rv)))"
    by (auto simp add: step_def delete_review_def reviews_cascade_reviews keys_def)
  have 5: "parents_exist (step d x)" for x
  proof -
    from \<open>reachable d\<close> have "reachable (step d x)" by (rule reachable.step)
    then have "db_inv (step d x)" by (rule reachable_inv)
    then show ?thesis by (simp add: db_inv_def)
  qed
  from 1 2 3 4 p 5 [of "DeleteTitle t"] 5 [of "DeleteReview rv"] show ?thesis by blast
qed

lemma step_delete_title_db_commented:
  "step db_commented (DeleteTitle 1)
     = \<lparr>users = [1, 2], categories = [], genres = [], titles = [],
         title_genre = [], reviews = [], comments = []\<rparr>"
  by (simp add: db_commented_eq step_def delete_title_def cascade_reviews_def
      cascade_comments_def delete_row_def keys_def review1_def comment1_def)

lemma step_delete_review_db_commented:
  "step db_commented (DeleteReview 1)
     = \<lparr>users = [1, 2], categories = [], genres = [], titles = [(1, title1)],
         title_genre = [], reviews = [], comments = []\<rparr>"
  by (simp add: db_commented_eq step_def delete_review_def cascade_reviews_def
      cascade_comments_def keys_def review1_def comment1_def)

theorem cascade_along_review_chain_witness:
  "reachable db_commented
   \<and> reviews db_commented = [(1, review1)] \<and> comments db_commented = [(1, comment1)]
   \<and> reviews (step db_commented (DeleteTitle 1)) = []
   \<and> comments (step db_commented (DeleteTitle 1)) = []
   \<and> comments (step db_commented (DeleteReview 1)) = []
   \<and> 1 \<notin> keys (titles (step db_commented (DeleteTitle 1)))
   \<and> 1 \<notin> keys (reviews (step db_commented (DeleteReview 1)))
   \<and> parents_exist db_commented"
proof -
  note t = cascade_along_review_chain [OF reachable_db_commented, of 1 1]
  from t have "1 \<notin> keys (titles (step db_commented (DeleteTitle 1)))"
    and "1 \<notin> keys (reviews (step db_commented (DeleteReview 1)))"
    and "parents_exist db_commented" by blast+
  moreover have "reviews db_commented = [(1, review1)]" "comments db_commented = [(1, comment1)]"
    by (simp_all add: db_commented_eq)
  moreover have "reviews (step db_commented (DeleteTitle 1)) = []"
    "comments (step db_commented (DeleteTitle 1)) = []"
    by (simp_all add: step_delete_title_db_commented)
  moreover have "comments (step db_commented (DeleteReview 1)) = []"
    by (simp add: step_delete_review_db_commented)
  ultimately show ?thesis
    using reachable_db_commented by blast
qed

lemma title_sel:
  "title_category title1 = None" "title_category title2 = Some 1"
  by (simp_all add: title1_def title2_def)

lemma db_categorised_eq:
  "db_categorised = \<lparr>users = [], categories = [(1, category1)], genres = [(1, genre1)],
     titles = [(1, title2), (2, title1)], title_genre = [(1, 1)], reviews = [], comments = []\<rparr>"
  by (simp add: db_categorised_def step_def save_category_def save_genre_def save_title_def
      add_genre_def saved_pk_def new_pk_def save_row_def keys_def empty_db_def
      unique_category_slug_def unique_genre_slug_def title_sel)

lemma nth_set_null_category:
  "i < length ts \<Longrightarrow>
   set_null_category k ts ! i
     = (fst (ts ! i), (snd (ts ! i))\<lparr>title_category :=
          (if title_category (snd (ts ! i)) = Some k then None else title_category (snd (ts ! i)))\<rparr>)"
  by (simp add: set_null_category_def split_def)

text \<open>
  Claim C7. Deleting a category that exists keeps every title: the keys of the titles
  are the same, in the same order; a title that pointed to the category has its
  category set to null and any other title keeps its category; name, year and
  description of every title stay. The genre associations, the other categories and
  the rows of every other table are unchanged.
\<close>

theorem delete_category_sets_null:
  "k \<in> keys (categories d) \<Longrightarrow> d' = step d (DeleteCategory k) \<Longrightarrow>
     map fst (titles d') = map fst (titles d)
     \<and> (\<forall>i < length (titles d).
           title_category (snd (titles d' ! i))
             = (if title_category (snd (titles d ! i)) = Some k then None
                else title_category (snd (titles d ! i)))
           \<and> title_name (snd (titles d' ! i)) = title_name (snd (titles d ! i))
           \<and> title_year (snd (titles d' ! i)) = title_year (snd (titles d ! i))
           \<and> title_description (snd (titles d' ! i)) = title_description (snd (titles d ! i)))
     \<and> title_genre d' = title_genre d
     \<and> categories d' = filter (\<lambda>(k', c). k' \<noteq> k) (categories d)
     \<and> users d' = users d \<and> genres d' = genres d
     \<and> reviews d' = reviews d \<and> comments d' = comments d"
  by (simp add: step_def delete_category_def map_fst_set_null_category nth_set_null_category
      delete_row_def)

theorem delete_category_sets_null_witness:
  "1 \<in> keys (categories db_categorised)
   \<and> titles db_categorised = [(1, title2), (2, title1)]
   \<and> map fst (titles (step db_categorised (DeleteCategory 1))) = [1, 2]
   \<and> title_category (snd (titles (step db_categorised (DeleteCategory 1)) ! 0)) = None
   \<and> title_name (snd (titles (step db_categorised (DeleteCategory 1)) ! 0)) = title_name title2
   \<and> title_genre (step db_categorised (DeleteCategory 1)) = [(1, 1)]
   \<and> categories (step db_categorised (DeleteCategory 1)) = []"
proof -
  have k: "1 \<in> keys (categories db_categorised)"
    by (simp add: db_categorised_eq keys_def)
  have ts: "titles db_categorised = [(1, title2), (2, title1)]"
    by (simp add: db_categorised_eq)
  have tg: "title_genre db_categorised = [(1, 1)]" "categories db_categorised = [(1, category1)]"
    by (simp_all add: db_categorised_eq)
  note t = delete_category_sets_null [OF k refl]
  from t have "map fst (titles (step db_categorised (DeleteCategory 1))) = [1, 2]"
    by (simp add: ts)
  moreover from t have "\<forall>i < length (titles db_categorised).
           title_category (snd (titles (step db_categorised (DeleteCategory 1)) ! i))
             = (if title_category (snd (titles db_categorised ! i)) = Some 1 then None
                else title_category (snd (titles db_categorised ! i)))
           \<and> title_name (snd (titles (step db_categorised (DeleteCategory 1)) ! i))
             = title_name (snd (titles db_categorised ! i))"
    by blast
  then have "title_category (snd (titles (step db_categorised (DeleteCategory 1)) ! 0)) = None
    \<and> title_name (snd (titles (step db_categorised (DeleteCategory 1)) ! 0)) = title_name title2"
    by (simp add: ts title_sel)
  moreover from t have "title_genre (step db_categorised (DeleteCategory 1)) = [(1, 1)]"
    by (simp add: tg)
  moreover from t have "categories (step db_categorised (DeleteCategory 1)) = []"
    by (simp add: tg)
  ultimately show ?thesis using k ts by blast
qed

section \<open>Comments on one's own review\<close>















end
